theory Spec2Isabelle
  imports Main "HOL-Library.Countable"
begin

section \<open>Browser session service: data model\<close>

text \<open>
  The service in \<^verbatim>\<open>browser_session_service.py\<close> keeps one directory per
  (user, site) pair, an encrypted metadata file inside it, and an in-memory dictionary of
  browser contexts that are waiting for a manual login.  The embedding below follows the
  methods of \<^verbatim>\<open>BrowserSessionManager\<close> one by one.

  Python values that travel through \<^verbatim>\<open>json\<close> (the metadata payload, the
  dictionaries returned to the caller, \<^verbatim>\<open>action_data\<close>) are values of
  \<open>pyval\<close>.  A dictionary is an association list in insertion order with string keys.
\<close>

datatype pyval =
    PNone
  | PBool bool
  | PInt int
  | PStr string
  | PList "pyval list"
  | PDict "(string \<times> pyval) list"

instance pyval :: countable
  by countable_datatype

text \<open>Python truthiness, as used by \<^verbatim>\<open>not x\<close> and \<^verbatim>\<open>x or y\<close>.\<close>

fun truthy :: "pyval \<Rightarrow> bool" where
  "truthy PNone = False"
| "truthy (PBool b) = b"
| "truthy (PInt i) = (i \<noteq> 0)"
| "truthy (PStr s) = (s \<noteq> [])"
| "truthy (PList xs) = (xs \<noteq> [])"
| "truthy (PDict kvs) = (kvs \<noteq> [])"

text \<open>
  A naive \<^verbatim>\<open>datetime\<close> is the number of microseconds since
  0001-01-01T00:00:00; adding a \<^verbatim>\<open>timedelta\<close> is integer addition and
  comparison is integer comparison.
\<close>

type_synonym datetime = int

definition SESSION_TIMEOUT_HOURS :: int where
  "SESSION_TIMEOUT_HOURS = 24 * 7"

definition timedelta_hours :: "int \<Rightarrow> int" where
  "timedelta_hours h = h * 3600 * 1000000"

definition timedelta_seconds :: "int \<Rightarrow> int" where
  "timedelta_seconds s = s * 1000000"

text \<open>
  The dataclass \<^verbatim>\<open>SessionMetadata\<close>.  Python does not enforce the annotations
  of a dataclass, and \<^verbatim>\<open>_load_session_metadata\<close> builds the object from
  whatever the decrypted payload holds, so the four fields that are not converted on
  loading carry an arbitrary \<open>pyval\<close>; the two timestamps are always the result of
  \<^verbatim>\<open>datetime.now()\<close> or \<^verbatim>\<open>datetime.fromisoformat\<close>.
\<close>

record SessionMetadata =
  user_id :: pyval
  site_name :: pyval
  created_at :: datetime
  last_used :: datetime
  is_valid :: pyval
  session_data :: pyval

subsection \<open>Library functions taken as parameters\<close>

text \<open>
  \<^verbatim>\<open>cryptography.fernet\<close>, \<^verbatim>\<open>json\<close>, \<^verbatim>\<open>datetime\<close> and
  \<^verbatim>\<open>hashlib\<close> are not part of the repository.  They are parameters of the
  model; a call that raises returns \<open>None\<close>.  \<open>fernet_encrypt\<close> stands for
  encryption under the key held by the manager, for any fixed choice of the token's
  timestamp and initialisation vector.
\<close>

record library =
  fernet_encrypt :: "string \<Rightarrow> string"
  fernet_decrypt :: "string \<Rightarrow> string option"
  json_dumps :: "pyval \<Rightarrow> string"
  json_loads :: "string \<Rightarrow> pyval option"
  isoformat :: "datetime \<Rightarrow> string"
  fromisoformat :: "string \<Rightarrow> datetime option"
  sha256_hexdigest :: "string \<Rightarrow> string"
  strftime :: "datetime \<Rightarrow> string"

text \<open>
  What the documentation of the three codecs promises: decryption undoes encryption
  under the same key, \<^verbatim>\<open>json.loads\<close> reads back what \<^verbatim>\<open>json.dumps\<close>
  wrote, and \<^verbatim>\<open>fromisoformat\<close> is the inverse of \<^verbatim>\<open>isoformat\<close>.
\<close>

definition library_ok :: "library \<Rightarrow> bool" where
  "library_ok L \<longleftrightarrow>
     (\<forall>s. fernet_decrypt L (fernet_encrypt L s) = Some s) \<and>
     (\<forall>v. json_loads L (json_dumps L v) = Some v) \<and>
     (\<forall>d. fromisoformat L (isoformat L d) = Some d)"

subsection \<open>The file system\<close>

text \<open>
  The store only ever touches session directories and the one metadata file inside each.
  The file system maps the path of a directory to its entries, and an entry name to a
  file.  A directory is identified by its path string; operating-system failures other
  than a missing parent directory or a missing file are not modelled.
\<close>

record disk_file =
  content :: string
  mode :: nat

type_synonym directory = "string \<rightharpoonup> disk_file"
type_synonym filesystem = "string \<rightharpoonup> directory"
type_synonym path = "string \<times> string"

definition dir_exists :: "filesystem \<Rightarrow> string \<Rightarrow> bool" where
  "dir_exists fs d = (fs d \<noteq> None)"

definition file_lookup :: "filesystem \<Rightarrow> path \<Rightarrow> disk_file option" where
  "file_lookup fs p = (case fs (fst p) of None \<Rightarrow> None | Some dir \<Rightarrow> dir (snd p))"

definition file_exists :: "filesystem \<Rightarrow> path \<Rightarrow> bool" where
  "file_exists fs p = (file_lookup fs p \<noteq> None)"

text \<open>\<^verbatim>\<open>Path.mkdir(parents=True, exist_ok=True)\<close>\<close>

definition mkdir :: "string \<Rightarrow> filesystem \<Rightarrow> filesystem" where
  "mkdir d fs = (case fs d of None \<Rightarrow> fs(d \<mapsto> Map.empty) | Some dir \<Rightarrow> fs)"

text \<open>\<^verbatim>\<open>shutil.rmtree\<close>\<close>

definition rmtree :: "string \<Rightarrow> filesystem \<Rightarrow> filesystem" where
  "rmtree d fs = fs(d := None)"

text \<open>
  The primitive steps of a write.  \<^verbatim>\<open>open(p, 'w')\<close> creates the file or
  truncates it to length zero and keeps the mode of an existing file; the text passed to
  \<^verbatim>\<open>json.dump\<close> reaches the file when the \<^verbatim>\<open>with\<close> block closes
  it.  A step returns \<open>None\<close> where the call raises \<^verbatim>\<open>FileNotFoundError\<close>.
  A new file gets mode \<open>0o644\<close> (umask \<open>022\<close>).
\<close>

datatype fs_op =
    Mkdir string
  | OpenW path
  | Write path string
  | Chmod path nat

definition default_mode :: nat where
  "default_mode = 420"

fun apply_op :: "fs_op \<Rightarrow> filesystem \<Rightarrow> filesystem option" where
  "apply_op (Mkdir d) fs = Some (mkdir d fs)"
| "apply_op (OpenW p) fs =
     (case fs (fst p) of
        None \<Rightarrow> None
      | Some dir \<Rightarrow>
          Some (fs(fst p \<mapsto> dir(snd p \<mapsto>
            \<lparr>content = [],
             mode = (case dir (snd p) of None \<Rightarrow> default_mode | Some f \<Rightarrow> mode f)\<rparr>))))"
| "apply_op (Write p text) fs =
     (case fs (fst p) of
        None \<Rightarrow> None
      | Some dir \<Rightarrow>
          (case dir (snd p) of
             None \<Rightarrow> None
           | Some f \<Rightarrow> Some (fs(fst p \<mapsto> dir(snd p \<mapsto> f\<lparr>content := content f @ text\<rparr>)))))"
| "apply_op (Chmod p m) fs =
     (case fs (fst p) of
        None \<Rightarrow> None
      | Some dir \<Rightarrow>
          (case dir (snd p) of
             None \<Rightarrow> None
           | Some f \<Rightarrow> Some (fs(fst p \<mapsto> dir(snd p \<mapsto> f\<lparr>mode := m\<rparr>)))))"

fun run_ops :: "fs_op list \<Rightarrow> filesystem \<Rightarrow> filesystem option" where
  "run_ops [] fs = Some fs"
| "run_ops (op # ops) fs =
     (case apply_op op fs of None \<Rightarrow> None | Some fs' \<Rightarrow> run_ops ops fs')"

section \<open>Session identity and the metadata store\<close>

definition SESSIONS_DIR :: string where
  "SESSIONS_DIR = ''user_sessions''"

definition get_session_dir :: "library \<Rightarrow> string \<Rightarrow> string \<Rightarrow> string" where
  "get_session_dir L uid site =
     (let session_hash = take 16 (sha256_hexdigest L (uid @ '':'' @ site))
      in SESSIONS_DIR @ ''/'' @ uid @ ''_'' @ session_hash @ ''_'' @ site)"

definition get_metadata_file :: "library \<Rightarrow> string \<Rightarrow> string \<Rightarrow> path" where
  "get_metadata_file L uid site = (get_session_dir L uid site, ''session_metadata.json'')"

definition encrypt_data :: "library \<Rightarrow> string \<Rightarrow> string" where
  "encrypt_data L data = fernet_encrypt L data"

text \<open>
  \<^verbatim>\<open>dataclasses.asdict\<close> followed by the two assignments that replace the
  timestamps by their ISO strings.
\<close>

definition metadata_dict_of :: "library \<Rightarrow> SessionMetadata \<Rightarrow> pyval" where
  "metadata_dict_of L metadata =
     PDict [(''user_id'', user_id metadata),
            (''site_name'', site_name metadata),
            (''created_at'', PStr (isoformat L (created_at metadata))),
            (''last_used'', PStr (isoformat L (last_used metadata))),
            (''is_valid'', is_valid metadata),
            (''session_data'', session_data metadata)]"

definition metadata_file_text :: "library \<Rightarrow> SessionMetadata \<Rightarrow> string" where
  "metadata_file_text L metadata =
     (let encrypted_data = encrypt_data L (json_dumps L (metadata_dict_of L metadata))
      in json_dumps L (PDict [(''encrypted_metadata'', PStr encrypted_data)]))"

definition save_ops :: "library \<Rightarrow> string \<Rightarrow> string \<Rightarrow> SessionMetadata \<Rightarrow> fs_op list" where
  "save_ops L uid site metadata =
     (let metadata_file = get_metadata_file L uid site
      in [Mkdir (fst metadata_file),
          OpenW metadata_file,
          Write metadata_file (metadata_file_text L metadata),
          Chmod metadata_file 384])"

definition save_session_metadata ::
  "library \<Rightarrow> filesystem \<Rightarrow> string \<Rightarrow> string \<Rightarrow> SessionMetadata \<Rightarrow> filesystem option" where
  "save_session_metadata L fs uid site metadata = run_ops (save_ops L uid site metadata) fs"

text \<open>A save that stops after its first \<open>n\<close> primitive steps.\<close>

definition interrupted_save ::
  "library \<Rightarrow> filesystem \<Rightarrow> string \<Rightarrow> string \<Rightarrow> SessionMetadata \<Rightarrow> nat \<Rightarrow> filesystem option" where
  "interrupted_save L fs uid site metadata n = run_ops (take n (save_ops L uid site metadata)) fs"

text \<open>
  The body of the \<^verbatim>\<open>try\<close> block of \<^verbatim>\<open>_load_session_metadata\<close>: every
  exception it can raise is a value of \<open>load_error\<close>.
\<close>

datatype load_error =
    JSONDecodeError
  | KeyError string
  | TypeError
  | AttributeError
  | InvalidToken
  | ValueError

text \<open>\<^verbatim>\<open>d[key]\<close> with a string key.\<close>

fun subscript :: "pyval \<Rightarrow> string \<Rightarrow> load_error + pyval" where
  "subscript (PDict kvs) k = (case map_of kvs k of None \<Rightarrow> Inl (KeyError k) | Some v \<Rightarrow> Inr v)"
| "subscript v k = Inl TypeError"

text \<open>\<^verbatim>\<open>self.cipher.decrypt(encrypted_data.encode()).decode()\<close>\<close>

fun decrypt_data :: "library \<Rightarrow> pyval \<Rightarrow> load_error + string" where
  "decrypt_data L (PStr token) =
     (case fernet_decrypt L token of None \<Rightarrow> Inl InvalidToken | Some data \<Rightarrow> Inr data)"
| "decrypt_data L v = Inl AttributeError"

text \<open>\<^verbatim>\<open>datetime.fromisoformat(x)\<close>\<close>

fun datetime_fromisoformat :: "library \<Rightarrow> pyval \<Rightarrow> load_error + datetime" where
  "datetime_fromisoformat L (PStr s) =
     (case fromisoformat L s of None \<Rightarrow> Inl ValueError | Some d \<Rightarrow> Inr d)"
| "datetime_fromisoformat L v = Inl TypeError"

text \<open>
  \<^verbatim>\<open>SessionMetadata(**metadata_dict)\<close>: a keyword that is not a field, or a
  missing field without a default, raises \<^verbatim>\<open>TypeError\<close>; \<^verbatim>\<open>is_valid\<close>
  defaults to \<^verbatim>\<open>True\<close> and \<^verbatim>\<open>session_data\<close> to \<^verbatim>\<open>None\<close>.
\<close>

definition metadata_fields :: "string list" where
  "metadata_fields =
     [''user_id'', ''site_name'', ''created_at'', ''last_used'', ''is_valid'', ''session_data'']"

definition construct_metadata ::
  "(string \<times> pyval) list \<Rightarrow> datetime \<Rightarrow> datetime \<Rightarrow> load_error + SessionMetadata" where
  "construct_metadata kvs created used =
     (if \<not> list_all (\<lambda>kv. fst kv \<in> set metadata_fields) kvs then Inl TypeError
      else case map_of kvs ''user_id'' of
        None \<Rightarrow> Inl TypeError
      | Some u \<Rightarrow>
         (case map_of kvs ''site_name'' of
            None \<Rightarrow> Inl TypeError
          | Some s \<Rightarrow>
              Inr \<lparr>user_id = u, site_name = s, created_at = created, last_used = used,
                   is_valid = (case map_of kvs ''is_valid'' of None \<Rightarrow> PBool True | Some b \<Rightarrow> b),
                   session_data =
                     (case map_of kvs ''session_data'' of None \<Rightarrow> PNone | Some d \<Rightarrow> d)\<rparr>))"

definition decode_payload :: "library \<Rightarrow> pyval \<Rightarrow> load_error + SessionMetadata" where
  "decode_payload L metadata_dict =
     (case subscript metadata_dict ''created_at'' of
        Inl e \<Rightarrow> Inl e
      | Inr c \<Rightarrow>
         (case datetime_fromisoformat L c of
            Inl e \<Rightarrow> Inl e
          | Inr created \<Rightarrow>
             (case subscript metadata_dict ''last_used'' of
                Inl e \<Rightarrow> Inl e
              | Inr u \<Rightarrow>
                 (case datetime_fromisoformat L u of
                    Inl e \<Rightarrow> Inl e
                  | Inr used \<Rightarrow>
                     (case metadata_dict of
                        PDict kvs \<Rightarrow> construct_metadata kvs created used
                      | _ \<Rightarrow> Inl TypeError)))))"

definition load_try :: "library \<Rightarrow> string \<Rightarrow> load_error + SessionMetadata" where
  "load_try L text =
     (case json_loads L text of
        None \<Rightarrow> Inl JSONDecodeError
      | Some data \<Rightarrow>
         (case subscript data ''encrypted_metadata'' of
            Inl e \<Rightarrow> Inl e
          | Inr encrypted \<Rightarrow>
             (case decrypt_data L encrypted of
                Inl e \<Rightarrow> Inl e
              | Inr decrypted_data \<Rightarrow>
                 (case json_loads L decrypted_data of
                    None \<Rightarrow> Inl JSONDecodeError
                  | Some metadata_dict \<Rightarrow> decode_payload L metadata_dict))))"

text \<open>
  \<^verbatim>\<open>_load_session_metadata\<close>: \<open>None\<close> when the file does not exist, and
  \<open>None\<close> again from the \<^verbatim>\<open>except Exception\<close> clause, which prints the error
  and returns.
\<close>

definition load_session_metadata ::
  "library \<Rightarrow> filesystem \<Rightarrow> string \<Rightarrow> string \<Rightarrow> SessionMetadata option" where
  "load_session_metadata L fs uid site =
     (case file_lookup fs (get_metadata_file L uid site) of
        None \<Rightarrow> None
      | Some f \<Rightarrow>
         (case load_try L (content f) of
            Inl e \<Rightarrow> None
          | Inr metadata \<Rightarrow> Some metadata))"

text \<open>
  \<^verbatim>\<open>_is_session_expired\<close>; the second argument is the value that
  \<^verbatim>\<open>datetime.now()\<close> returns inside the call.
\<close>

definition is_session_expired :: "SessionMetadata \<Rightarrow> datetime \<Rightarrow> bool" where
  "is_session_expired metadata now =
     (if \<not> truthy (is_valid metadata) then True
      else let expiry_time = last_used metadata + timedelta_hours SESSION_TIMEOUT_HOURS
           in now > expiry_time)"

section \<open>The manager and its collaborators\<close>

text \<open>
  Exceptions that reach an \<^verbatim>\<open>except Exception as e\<close> clause of the manager,
  each with the text of \<^verbatim>\<open>str(e)\<close>.  \<open>PlaywrightError\<close> is whatever the
  browser collaborator raises; \<open>NoneTypeError\<close> is the \<^verbatim>\<open>AttributeError\<close>
  of calling a method on \<^verbatim>\<open>self.browser\<close> while it is \<^verbatim>\<open>None\<close>.
\<close>

datatype py_exception =
    PyValueError string
  | PlaywrightError string
  | NoneTypeError string
  | OSError string

fun str :: "py_exception \<Rightarrow> string" where
  "str (PyValueError msg) = msg"
| "str (PlaywrightError msg) = msg"
| "str (NoneTypeError msg) = msg"
| "str (OSError msg) = msg"

definition quote :: string where
  "quote = [CHR 0x27]"

text \<open>What a method of the manager raises to its caller.\<close>

datatype failure =
    HTTPException nat string
  | Uncaught py_exception

text \<open>\<^verbatim>\<open>pat in s\<close> on strings.\<close>

fun starts_with :: "string \<Rightarrow> string \<Rightarrow> bool" where
  "starts_with [] s = True"
| "starts_with (p # ps) [] = False"
| "starts_with (p # ps) (c # cs) = (p = c \<and> starts_with ps cs)"

fun contains :: "string \<Rightarrow> string \<Rightarrow> bool" where
  "contains pat [] = (pat = [])"
| "contains pat (c # cs) = (starts_with pat (c # cs) \<or> contains pat cs)"

text \<open>
  The state of a \<^verbatim>\<open>BrowserSessionManager\<close>: the session directories on disk,
  the dictionary \<^verbatim>\<open>active_sessions\<close>, and whether \<^verbatim>\<open>self.playwright\<close>
  and \<^verbatim>\<open>self.browser\<close> are set.  A browser context is a handle (a number);
  \<open>open_contexts\<close> records the contexts that \<^verbatim>\<open>new_context\<close> has returned
  and on which \<^verbatim>\<open>close\<close> has not yet completed.
\<close>

record manager =
  fs :: filesystem
  active_sessions :: "string \<rightharpoonup> nat"
  playwright :: bool
  browser :: bool
  open_contexts :: "nat set"
  next_context :: nat

text \<open>
  What the world outside the manager does during one call: for each awaited call on the
  browser collaborator whether it raises (\<open>Some msg\<close>, with the text of the exception)
  or returns, the values it returns, and the readings of \<^verbatim>\<open>datetime.now()\<close>.
\<close>

record environment =
  start_r :: "string option"
  launch_r :: "string option"
  new_context_r :: "string option"
  pages_nonempty :: bool
  new_page_r :: "string option"
  goto_r :: "string option"
  wait_r :: "string option"
  title_r :: "string + string"
  screenshot_r :: "string option"
  close_r :: "string option"
  page_url :: string
  now_check :: datetime
  now_shot :: datetime
  now_created :: datetime
  now_used :: datetime
  now_confirmed :: datetime
  now_stamp :: datetime

definition session_key :: "string \<Rightarrow> string \<Rightarrow> string" where
  "session_key uid site = uid @ '':'' @ site"

definition setup_playwright :: "environment \<Rightarrow> manager \<Rightarrow> (py_exception + unit) \<times> manager" where
  "setup_playwright env st =
     (if \<not> playwright st then
        (case start_r env of
           Some msg \<Rightarrow> (Inl (PlaywrightError msg), st)
         | None \<Rightarrow>
            (case launch_r env of
               Some msg \<Rightarrow> (Inl (PlaywrightError msg), st\<lparr>playwright := True\<rparr>)
             | None \<Rightarrow> (Inr (), st\<lparr>playwright := True, browser := True\<rparr>)))
      else (Inr (), st))"

text \<open>\<^verbatim>\<open>await self.browser.new_context(...)\<close>\<close>

definition new_context :: "environment \<Rightarrow> manager \<Rightarrow> (py_exception + nat) \<times> manager" where
  "new_context env st =
     (if \<not> browser st then
        (Inl (NoneTypeError (quote @ ''NoneType'' @ quote @ '' object has no attribute '' @
           quote @ ''new_context'' @ quote)), st)
      else case new_context_r env of
        Some msg \<Rightarrow> (Inl (PlaywrightError msg), st)
      | None \<Rightarrow>
          (Inr (next_context st),
           st\<lparr>open_contexts := insert (next_context st) (open_contexts st),
              next_context := Suc (next_context st)\<rparr>))"

subsection \<open>create_session\<close>

text \<open>
  The \<^verbatim>\<open>try\<close> block and the method around it.  The
  \<^verbatim>\<open>SessionMetadata\<close> object that the block builds after registering the
  context is never used, so it is left out, like the calls of \<^verbatim>\<open>print\<close>.
\<close>

definition create_try ::
  "environment \<Rightarrow> manager \<Rightarrow> string \<Rightarrow> string \<Rightarrow> string \<Rightarrow> string \<Rightarrow>
     (py_exception + pyval) \<times> manager" where
  "create_try env st session_dir uid site login_url =
     (case new_context env st of
        (Inl e, st1) \<Rightarrow> (Inl e, st1)
      | (Inr ctx, st1) \<Rightarrow>
         (case new_page_r env of
            Some msg \<Rightarrow> (Inl (PlaywrightError msg), st1)
          | None \<Rightarrow>
             (case goto_r env of
                Some msg \<Rightarrow> (Inl (PlaywrightError msg), st1)
              | None \<Rightarrow>
                 (Inr (PDict
                    [(''status'', PStr ''session_created''),
                     (''message'', PStr (''Browser session created for '' @ uid @
                        ''. Please complete login manually.'')),
                     (''session_dir'', PStr session_dir),
                     (''next_step'', PStr (''Call /confirm-login/'' @ uid @ ''/'' @ site @
                        '' when login is complete''))]),
                  st1\<lparr>active_sessions := (active_sessions st1)(session_key uid site \<mapsto> ctx)\<rparr>))))"

definition create_session ::
  "library \<Rightarrow> environment \<Rightarrow> manager \<Rightarrow> string \<Rightarrow> string \<Rightarrow> string \<Rightarrow>
     (failure + pyval) \<times> manager" where
  "create_session L env st uid site login_url =
     (case setup_playwright env st of
        (Inl e, st1) \<Rightarrow> (Inl (Uncaught e), st1)
      | (Inr u, st1) \<Rightarrow>
         (let session_dir = get_session_dir L uid site;
              st2 = st1\<lparr>fs := mkdir session_dir (fs st1)\<rparr>
          in case create_try env st2 session_dir uid site login_url of
               (Inr r, st3) \<Rightarrow> (Inr r, st3)
             | (Inl e, st3) \<Rightarrow>
                 (Inl (HTTPException 500 (''Failed to create session: '' @ str e)),
                  if dir_exists (fs st3) session_dir
                  then st3\<lparr>fs := rmtree session_dir (fs st3)\<rparr> else st3)))"

subsection \<open>confirm_login\<close>

definition confirm_try ::
  "library \<Rightarrow> environment \<Rightarrow> manager \<Rightarrow> nat \<Rightarrow> string \<Rightarrow> string \<Rightarrow>
     (py_exception + pyval) \<times> manager" where
  "confirm_try L env st ctx uid site =
     (case (if pages_nonempty env then None else new_page_r env) of
        Some msg \<Rightarrow> (Inl (PlaywrightError msg), st)
      | None \<Rightarrow>
         (let current_url = page_url env;
              metadata =
                \<lparr>user_id = PStr uid, site_name = PStr site,
                 created_at = now_created env, last_used = now_used env,
                 is_valid = PBool True,
                 session_data = PDict
                   [(''login_url'', PStr current_url),
                    (''confirmed_at'', PStr (isoformat L (now_confirmed env)))]\<rparr>
          in case save_session_metadata L (fs st) uid site metadata of
               None \<Rightarrow> (Inl (OSError ''No such file or directory''), st)
             | Some fs' \<Rightarrow>
                (case close_r env of
                   Some msg \<Rightarrow> (Inl (PlaywrightError msg), st\<lparr>fs := fs'\<rparr>)
                 | None \<Rightarrow>
                    (Inr (PDict
                       [(''status'', PStr ''login_confirmed''),
                        (''message'', PStr (''Session saved successfully for '' @ uid)),
                        (''current_url'', PStr current_url),
                        (''session_saved'', PBool True)]),
                     st\<lparr>fs := fs',
                        open_contexts := open_contexts st - {ctx},
                        active_sessions := (active_sessions st)(session_key uid site := None)\<rparr>))))"

definition confirm_login ::
  "library \<Rightarrow> environment \<Rightarrow> manager \<Rightarrow> string \<Rightarrow> string \<Rightarrow> (failure + pyval) \<times> manager" where
  "confirm_login L env st uid site =
     (case active_sessions st (session_key uid site) of
        None \<Rightarrow> (Inl (HTTPException 404 ''No active session found''), st)
      | Some ctx \<Rightarrow>
         (case confirm_try L env st ctx uid site of
            (Inr r, st') \<Rightarrow> (Inr r, st')
          | (Inl e, st') \<Rightarrow>
              (Inl (HTTPException 500 (''Failed to confirm login: '' @ str e)), st')))"

subsection \<open>execute_action\<close>

text \<open>\<^verbatim>\<open>action_data.get(key, default)\<close> on a dictionary\<close>

definition dict_get :: "(string \<times> pyval) list \<Rightarrow> string \<Rightarrow> pyval \<Rightarrow> pyval" where
  "dict_get kvs k dflt = (case map_of kvs k of None \<Rightarrow> dflt | Some v \<Rightarrow> v)"

text \<open>
  \<^verbatim>\<open>_perform_action\<close>.  The page is driven by the collaborator, so the outcome
  of each awaited call comes from the environment.
\<close>

definition perform_action ::
  "library \<Rightarrow> environment \<Rightarrow> string \<Rightarrow> (string \<times> pyval) list \<Rightarrow> py_exception + pyval" where
  "perform_action L env action_type action_data =
     (if action_type = ''get_profile'' then
        (let profile_url = dict_get action_data ''profile_url''
                             (PStr ''https://www.linkedin.com/feed/'')
         in case goto_r env of
              Some msg \<Rightarrow> Inl (PlaywrightError msg)
            | None \<Rightarrow>
               (case wait_r env of
                  Some msg \<Rightarrow> Inl (PlaywrightError msg)
                | None \<Rightarrow>
                   (case title_r env of
                      Inl msg \<Rightarrow> Inl (PlaywrightError msg)
                    | Inr title \<Rightarrow>
                        Inr (PDict [(''page_title'', PStr title),
                                    (''current_url'', PStr (page_url env)),
                                    (''screenshot_taken'', PBool False)]))))
      else if action_type = ''post_message'' then
        (let message = dict_get action_data ''message'' (PStr [])
         in if \<not> truthy message then Inl (PyValueError ''Message content is required'')
            else case goto_r env of
              Some msg \<Rightarrow> Inl (PlaywrightError msg)
            | None \<Rightarrow>
               (case wait_r env of
                  Some msg \<Rightarrow> Inl (PlaywrightError msg)
                | None \<Rightarrow>
                    Inr (PDict [(''message'', PStr ''Post functionality would be implemented here''),
                                (''content'', message),
                                (''posted'', PBool False)])))
      else if action_type = ''screenshot'' then
        (let screenshot_path = ''screenshot_'' @ strftime L (now_shot env) @ ''.png''
         in case screenshot_r env of
              Some msg \<Rightarrow> Inl (PlaywrightError msg)
            | None \<Rightarrow>
               (case title_r env of
                  Inl msg \<Rightarrow> Inl (PlaywrightError msg)
                | Inr title \<Rightarrow>
                    Inr (PDict [(''screenshot_path'', PStr screenshot_path),
                                (''page_title'', PStr title),
                                (''current_url'', PStr (page_url env))])))
      else Inl (PyValueError (''Unknown action type: '' @ action_type)))"

text \<open>
  The \<^verbatim>\<open>try\<close> block of \<^verbatim>\<open>execute_action\<close>.  It assigns to
  \<^verbatim>\<open>metadata.last_used\<close> before it saves, so the object the
  \<^verbatim>\<open>except\<close> clause sees is returned with the outcome.
\<close>

definition execute_try ::
  "library \<Rightarrow> environment \<Rightarrow> manager \<Rightarrow> SessionMetadata \<Rightarrow> string \<Rightarrow> string \<Rightarrow> string \<Rightarrow>
     (string \<times> pyval) list option \<Rightarrow> (py_exception + pyval) \<times> SessionMetadata \<times> manager" where
  "execute_try L env st metadata uid site action_type action_data =
     (case new_context env st of
        (Inl e, st1) \<Rightarrow> (Inl e, metadata, st1)
      | (Inr ctx, st1) \<Rightarrow>
         (case new_page_r env of
            Some msg \<Rightarrow> (Inl (PlaywrightError msg), metadata, st1)
          | None \<Rightarrow>
             (case perform_action L env action_type
                     (case action_data of None \<Rightarrow> [] | Some kvs \<Rightarrow> kvs) of
                Inl e \<Rightarrow> (Inl e, metadata, st1)
              | Inr result \<Rightarrow>
                 (let metadata' = metadata\<lparr>last_used := now_used env\<rparr>
                  in case save_session_metadata L (fs st1) uid site metadata' of
                       None \<Rightarrow> (Inl (OSError ''No such file or directory''), metadata', st1)
                     | Some fs' \<Rightarrow>
                        (case close_r env of
                           Some msg \<Rightarrow> (Inl (PlaywrightError msg), metadata', st1\<lparr>fs := fs'\<rparr>)
                         | None \<Rightarrow>
                            (Inr (PDict
                               [(''status'', PStr ''action_completed''),
                                (''action_type'', PStr action_type),
                                (''result'', result),
                                (''timestamp'', PStr (isoformat L (now_stamp env)))]),
                             metadata',
                             st1\<lparr>fs := fs',
                                 open_contexts := open_contexts st1 - {ctx}\<rparr>))))))"

text \<open>The test of the \<^verbatim>\<open>except\<close> clause of \<^verbatim>\<open>execute_action\<close>.\<close>

definition session_validity_issue :: "py_exception \<Rightarrow> bool" where
  "session_validity_issue e =
     (contains ''net::ERR_'' (str e) \<or> contains ''Session expired'' (str e))"

definition execute_action ::
  "library \<Rightarrow> environment \<Rightarrow> manager \<Rightarrow> string \<Rightarrow> string \<Rightarrow> string \<Rightarrow>
     (string \<times> pyval) list option \<Rightarrow> (failure + pyval) \<times> manager" where
  "execute_action L env st uid site action_type action_data =
     (case load_session_metadata L (fs st) uid site of
        None \<Rightarrow> (Inl (HTTPException 404 ''Session not found''), st)
      | Some metadata \<Rightarrow>
         if is_session_expired metadata (now_check env)
         then (Inl (HTTPException 401 ''Session expired. Please re-login.''), st)
         else if \<not> dir_exists (fs st) (get_session_dir L uid site)
         then (Inl (HTTPException 404 ''Session directory not found''), st)
         else
           (case setup_playwright env st of
              (Inl e, st1) \<Rightarrow> (Inl (Uncaught e), st1)
            | (Inr u, st1) \<Rightarrow>
               (case execute_try L env st1 metadata uid site action_type action_data of
                  (Inr r, metadata', st2) \<Rightarrow> (Inr r, st2)
                | (Inl e, metadata', st2) \<Rightarrow>
                   if session_validity_issue e then
                     (case save_session_metadata L (fs st2) uid site
                             (metadata'\<lparr>is_valid := PBool False\<rparr>) of
                        None \<Rightarrow> (Inl (Uncaught (OSError ''No such file or directory'')), st2)
                      | Some fs' \<Rightarrow>
                          (Inl (HTTPException 401 ''Session invalid. Please re-login.''),
                           st2\<lparr>fs := fs'\<rparr>))
                   else (Inl (HTTPException 500 (''Action failed: '' @ str e)), st2))))"

subsection \<open>delete_session\<close>

definition delete_session :: "library \<Rightarrow> manager \<Rightarrow> string \<Rightarrow> string \<Rightarrow> bool \<times> manager" where
  "delete_session L st uid site =
     (let session_dir = get_session_dir L uid site
      in if dir_exists (fs st) session_dir
         then (True, st\<lparr>fs := rmtree session_dir (fs st)\<rparr>)
         else (False, st))"

section \<open>A concrete library and concrete runs\<close>

text \<open>
  A small instance of the library parameters that satisfies \<open>library_ok\<close>: tokens
  carry the Fernet version prefix and anything else is rejected, documents and timestamps
  are encoded by a counting code.
\<close>

definition toy_encrypt :: "string \<Rightarrow> string" where
  "toy_encrypt s = ''gAAAAA'' @ s"

definition toy_decrypt :: "string \<Rightarrow> string option" where
  "toy_decrypt t = (if take 6 t = ''gAAAAA'' then Some (drop 6 t) else None)"

definition toy_dumps :: "pyval \<Rightarrow> string" where
  "toy_dumps v = CHR ''{'' # replicate (to_nat v) CHR ''1''"

definition toy_loads :: "string \<Rightarrow> pyval option" where
  "toy_loads s =
     (case s of [] \<Rightarrow> None
      | c # r \<Rightarrow> if c = CHR ''{'' then Some (from_nat (length r)) else None)"

definition toy_isoformat :: "datetime \<Rightarrow> string" where
  "toy_isoformat d = CHR ''T'' # replicate (to_nat d) CHR ''1''"

definition toy_fromisoformat :: "string \<Rightarrow> datetime option" where
  "toy_fromisoformat s =
     (case s of [] \<Rightarrow> None
      | c # r \<Rightarrow> if c = CHR ''T'' then Some (from_nat (length r)) else None)"

definition toy :: library where
  "toy = \<lparr>fernet_encrypt = toy_encrypt, fernet_decrypt = toy_decrypt,
          json_dumps = toy_dumps, json_loads = toy_loads,
          isoformat = toy_isoformat, fromisoformat = toy_fromisoformat,
          sha256_hexdigest = (\<lambda>s. ''9f86d081884c7d659a2feaa0c55ad015''),
          strftime = (\<lambda>d. ''20240101_000000'')\<rparr>"

definition m0 :: SessionMetadata where
  "m0 = \<lparr>user_id = PStr ''u1'', site_name = PStr ''siteA'',
         created_at = 1000000, last_used = 2000000,
         is_valid = PBool True,
         session_data = PDict [(''login_url'', PStr ''https://x/login'')]\<rparr>"

definition quiet :: environment where
  "quiet = \<lparr>start_r = None, launch_r = None, new_context_r = None, pages_nonempty = True,
            new_page_r = None, goto_r = None, wait_r = None, title_r = Inr ''Feed'',
            screenshot_r = None, close_r = None, page_url = ''https://x/home'',
            now_check = 3000000, now_shot = 3000000, now_created = 3000000,
            now_used = 3000000, now_confirmed = 3000000, now_stamp = 3000000\<rparr>"

definition fresh :: manager where
  "fresh = \<lparr>fs = Map.empty, active_sessions = Map.empty, playwright = False,
            browser = False, open_contexts = {}, next_context = 0\<rparr>"

text \<open>The text of the metadata file of a key, when the file exists.\<close>

definition stored_text :: "library \<Rightarrow> filesystem \<Rightarrow> string \<Rightarrow> string \<Rightarrow> string option" where
  "stored_text L F uid site = map_option content (file_lookup F (get_metadata_file L uid site))"

text \<open>
  The manager after \<^verbatim>\<open>create_session("u1", "siteA", "https://x/login")\<close>, and
  after the \<^verbatim>\<open>confirm_login("u1", "siteA")\<close> that follows it.
\<close>

definition pending1 :: manager where
  "pending1 = snd (create_session toy quiet fresh ''u1'' ''siteA'' ''https://x/login'')"

definition confirmed1 :: manager where
  "confirmed1 = snd (confirm_login toy quiet pending1 ''u1'' ''siteA'')"

text \<open>The metadata that this \<^verbatim>\<open>confirm_login\<close> writes.\<close>

definition m1 :: SessionMetadata where
  "m1 = \<lparr>user_id = PStr ''u1'', site_name = PStr ''siteA'',
         created_at = 3000000, last_used = 3000000, is_valid = PBool True,
         session_data = PDict [(''login_url'', PStr ''https://x/home''),
                               (''confirmed_at'', PStr (toy_isoformat 3000000))]\<rparr>"

text \<open>
  The manager after \<^verbatim>\<open>create_session("a:b", "c", "https://x/login")\<close> alone.
\<close>

definition pending_ab :: manager where
  "pending_ab = snd (create_session toy quiet fresh ''a:b'' ''c'' ''https://x/login'')"

text \<open>An environment in which the navigation of the page fails with a network error.\<close>

definition offline :: environment where
  "offline = quiet\<lparr>goto_r := Some ''net::ERR_INTERNET_DISCONNECTED at https://www.linkedin.com/feed/''\<rparr>"

text \<open>
  A metadata file whose token differs from a token written by the store in its first byte.
\<close>

definition tampered_fs :: filesystem where
  "tampered_fs =
     [get_session_dir toy ''u1'' ''siteA'' \<mapsto>
        [''session_metadata.json'' \<mapsto>
           \<lparr>content = toy_dumps (PDict [(''encrypted_metadata'',
                          PStr (''hAAAAA'' @ toy_dumps (metadata_dict_of toy m0)))]),
            mode = 384\<rparr>]]"

section \<open>Properties of the metadata store\<close>

subsection \<open>Facts about the concrete library\<close>

lemma toy_decrypt_encrypt: "toy_decrypt (toy_encrypt s) = Some s"
  by (simp add: toy_decrypt_def toy_encrypt_def)

lemma toy_loads_dumps: "toy_loads (toy_dumps v) = Some v"
  by (simp add: toy_loads_def toy_dumps_def)

lemma toy_fromisoformat_isoformat: "toy_fromisoformat (toy_isoformat d) = Some d"
  by (simp add: toy_fromisoformat_def toy_isoformat_def)

lemma toy_fields:
  "json_loads toy = toy_loads" "json_dumps toy = toy_dumps"
  "fernet_decrypt toy = toy_decrypt" "fernet_encrypt toy = toy_encrypt"
  "isoformat toy = toy_isoformat" "fromisoformat toy = toy_fromisoformat"
  by (simp_all add: toy_def)

lemma toy_ok: "library_ok toy"
  by (simp add: library_ok_def toy_fields toy_decrypt_encrypt toy_loads_dumps
      toy_fromisoformat_isoformat)

lemma toy_dir: "get_session_dir toy ''u1'' ''siteA'' = ''user_sessions/u1_9f86d081884c7d65_siteA''"
  by (simp add: get_session_dir_def toy_def SESSIONS_DIR_def)

subsection \<open>Saving and loading\<close>

text \<open>
  A save never fails in this file system: it creates the directory first.  Its effect is
  to bind the metadata file of the key to the new text with mode \<open>0o600\<close>, leaving
  every other entry of the directory and every other directory as they were.
\<close>

lemma save_result:
  "save_session_metadata L F uid site m =
     Some (F(get_session_dir L uid site \<mapsto>
       (case F (get_session_dir L uid site) of None \<Rightarrow> Map.empty | Some dir \<Rightarrow> dir)
         (''session_metadata.json'' \<mapsto> \<lparr>content = metadata_file_text L m, mode = 384\<rparr>)))"
  by (cases "F (get_session_dir L uid site)")
     (simp_all add: save_session_metadata_def save_ops_def get_metadata_file_def mkdir_def Let_def)

lemma file_lookup_saved:
  "save_session_metadata L F uid site m = Some F' \<Longrightarrow>
   file_lookup F' (get_metadata_file L uid site) =
     Some \<lparr>content = metadata_file_text L m, mode = 384\<rparr>"
  by (auto simp: save_result file_lookup_def get_metadata_file_def)

lemma file_lookup_empty: "file_lookup Map.empty p = None"
  by (simp add: file_lookup_def)

lemma construct_metadata_of:
  "construct_metadata
     [(''user_id'', user_id m), (''site_name'', site_name m), (''created_at'', c),
      (''last_used'', u), (''is_valid'', is_valid m), (''session_data'', session_data m)]
     (created_at m) (last_used m) = Inr m"
  by (simp add: construct_metadata_def metadata_fields_def)

lemma decode_payload_dict:
  "\<forall>d. fromisoformat L (isoformat L d) = Some d \<Longrightarrow>
   decode_payload L (metadata_dict_of L m) = Inr m"
  by (simp add: decode_payload_def metadata_dict_of_def construct_metadata_of)

lemma load_try_text:
  "library_ok L \<Longrightarrow> load_try L (metadata_file_text L m) = Inr m"
  by (simp add: library_ok_def load_try_def metadata_file_text_def encrypt_data_def
      decode_payload_dict)

lemma load_after_save:
  "library_ok L \<Longrightarrow> save_session_metadata L F uid site m = Some F' \<Longrightarrow>
   load_session_metadata L F' uid site = Some m"
  by (simp add: load_session_metadata_def file_lookup_saved load_try_text)

text \<open>
  Claim C1.  Whenever the three codecs invert each other as documented, saving any
  metadata \<open>m\<close> under any key succeeds, and loading that key from the resulting file
  system returns exactly \<open>m\<close>: every field is equal, the two timestamps to the
  microsecond.  The metadata ranges over all values of the record, that is, over
  fields that \<^verbatim>\<open>json\<close> can represent (dictionaries with string keys).
\<close>

theorem roundtrip:
  assumes "library_ok L"
  shows "\<exists>F'. save_session_metadata L F uid site m = Some F' \<and>
           load_session_metadata L F' uid site = Some m"
  using assms
  by (simp add: save_result load_session_metadata_def file_lookup_def get_metadata_file_def
      load_try_text)

theorem roundtrip_witness:
  "library_ok toy \<and>
   (\<exists>F'. save_session_metadata toy Map.empty ''u1'' ''siteA'' m0 = Some F' \<and>
      load_session_metadata toy F' ''u1'' ''siteA'' = Some m0)"
  using roundtrip [of toy Map.empty "''u1''" "''siteA''" m0] toy_ok by simp

subsection \<open>Files that cannot be read back\<close>

text \<open>
  Payloads that decrypt but do not have the shape of a \<^verbatim>\<open>SessionMetadata\<close>:
  a missing timestamp raises \<^verbatim>\<open>KeyError\<close>, a timestamp that does not parse
  raises \<^verbatim>\<open>ValueError\<close>, and a missing \<^verbatim>\<open>user_id\<close> or an unknown
  key raises \<^verbatim>\<open>TypeError\<close>.
\<close>

lemma schema_invalid_payload:
  "map_of kvs ''created_at'' = None \<Longrightarrow>
     decode_payload L (PDict kvs) = Inl (KeyError ''created_at'')"
  "map_of kvs ''created_at'' = Some (PStr s) \<Longrightarrow> fromisoformat L s = None \<Longrightarrow>
     decode_payload L (PDict kvs) = Inl ValueError"
  "map_of kvs ''created_at'' = Some (PStr s) \<Longrightarrow> fromisoformat L s = Some c \<Longrightarrow>
   map_of kvs ''last_used'' = Some (PStr s') \<Longrightarrow> fromisoformat L s' = Some u \<Longrightarrow>
   map_of kvs ''user_id'' = None \<or> \<not> list_all (\<lambda>kv. fst kv \<in> set metadata_fields) kvs \<Longrightarrow>
     decode_payload L (PDict kvs) = Inl TypeError"
  by (auto simp: decode_payload_def construct_metadata_def)

lemma tampered_lookup:
  "file_lookup tampered_fs (get_metadata_file toy ''u1'' ''siteA'') =
     Some \<lparr>content = toy_dumps (PDict [(''encrypted_metadata'',
                          PStr (''hAAAAA'' @ toy_dumps (metadata_dict_of toy m0)))]),
            mode = 384\<rparr>"
  by (simp add: file_lookup_def get_metadata_file_def tampered_fs_def)

text \<open>
  Claim C2, as the code has it.  When the metadata file of a key exists and reading,
  decrypting or decoding it raises, \<^verbatim>\<open>_load_session_metadata\<close> returns
  \<^verbatim>\<open>None\<close>, the value it also returns for a key without a file; no error reaches
  the caller.  It returns metadata only when the whole file decrypted and decoded.  In
  particular a file whose token the cipher rejects loads as \<^verbatim>\<open>None\<close>.
\<close>

theorem load_failure_is_absent:
  assumes "file_lookup F (get_metadata_file L uid site) = Some f"
  shows "(load_try L (content f) = Inl e \<longrightarrow> load_session_metadata L F uid site = None) \<and>
         (load_session_metadata L F uid site = Some m \<longrightarrow> load_try L (content f) = Inr m) \<and>
         (json_loads L (content f) = Some (PDict [(''encrypted_metadata'', PStr token)]) \<and>
            fernet_decrypt L token = None \<longrightarrow>
              load_try L (content f) = Inl InvalidToken \<and>
              load_session_metadata L F uid site = None)"
  using assms
  by (auto simp: load_session_metadata_def load_try_def split: sum.splits)

theorem load_failure_is_absent_witness:
  "file_lookup tampered_fs (get_metadata_file toy ''u1'' ''siteA'') =
     Some \<lparr>content = toy_dumps (PDict [(''encrypted_metadata'',
                          PStr (''hAAAAA'' @ toy_dumps (metadata_dict_of toy m0)))]),
            mode = 384\<rparr> \<and>
   json_loads toy (toy_dumps (PDict [(''encrypted_metadata'',
        PStr (''hAAAAA'' @ toy_dumps (metadata_dict_of toy m0)))])) =
     Some (PDict [(''encrypted_metadata'', PStr (''hAAAAA'' @ toy_dumps (metadata_dict_of toy m0)))]) \<and>
   fernet_decrypt toy (''hAAAAA'' @ toy_dumps (metadata_dict_of toy m0)) = None \<and>
   load_try toy (toy_dumps (PDict [(''encrypted_metadata'',
        PStr (''hAAAAA'' @ toy_dumps (metadata_dict_of toy m0)))])) = Inl InvalidToken \<and>
   load_session_metadata toy tampered_fs ''u1'' ''siteA'' = None"
  using load_failure_is_absent [OF tampered_lookup, of InvalidToken m0
      "''hAAAAA'' @ toy_dumps (metadata_dict_of toy m0)"]
  by (simp add: tampered_lookup toy_fields toy_loads_dumps toy_decrypt_def)

text \<open>
  The claim as the specification words it fails: the file of \<open>tampered_fs\<close> exists, its
  token is the token of \<open>m0\<close> with the first byte changed and is rejected by the cipher,
  and the load returns \<^verbatim>\<open>None\<close>, exactly what it returns on an empty disk.
\<close>

theorem load_corrupt_counterexample:
  "file_exists tampered_fs (get_metadata_file toy ''u1'' ''siteA'') \<and>
   fernet_decrypt toy (''hAAAAA'' @ toy_dumps (metadata_dict_of toy m0)) = None \<and>
   fernet_decrypt toy (''gAAAAA'' @ toy_dumps (metadata_dict_of toy m0)) =
     Some (toy_dumps (metadata_dict_of toy m0)) \<and>
   load_session_metadata toy tampered_fs ''u1'' ''siteA'' = None \<and>
   load_session_metadata toy tampered_fs ''u1'' ''siteA'' =
     load_session_metadata toy Map.empty ''u1'' ''siteA''"
  by (simp add: file_exists_def tampered_lookup load_session_metadata_def load_try_def
      toy_fields toy_loads_dumps toy_decrypt_def file_lookup_empty)

subsection \<open>Expiration\<close>

text \<open>
  Claim C3.  A session is expired exactly when its validity flag is false (falsy, for a
  flag that is not a boolean) or the current time is later than \<open>last_used\<close> plus
  168 hours.  With a true flag it is not expired one second before that instant and
  expired one second after it; with a false flag it is expired at every time.  The
  configured timeout is 168 hours.
\<close>

theorem expiration_policy:
  "(is_session_expired m now \<longleftrightarrow>
      \<not> truthy (is_valid m) \<or> now > last_used m + timedelta_hours 168) \<and>
   \<not> is_session_expired (m\<lparr>is_valid := PBool True\<rparr>)
       (last_used m + timedelta_hours 168 - timedelta_seconds 1) \<and>
   is_session_expired (m\<lparr>is_valid := PBool True\<rparr>)
       (last_used m + timedelta_hours 168 + timedelta_seconds 1) \<and>
   is_session_expired (m\<lparr>is_valid := PBool False\<rparr>) now \<and>
   timedelta_hours SESSION_TIMEOUT_HOURS = timedelta_hours 168"
  by (simp add: is_session_expired_def SESSION_TIMEOUT_HOURS_def timedelta_hours_def
      timedelta_seconds_def)

theorem expiration_policy_witness:
  "\<not> is_session_expired m0 (2000000 + 604800000000 - 1000000) \<and>
   is_session_expired m0 (2000000 + 604800000000 + 1000000) \<and>
   is_session_expired (m0\<lparr>is_valid := PBool False\<rparr>) 0 \<and>
   \<not> is_session_expired m0 (2000000 + 604800000000) \<and>
   is_session_expired m0 (2000000 + 604800000001)"
  using expiration_policy [of m0 "2000000 + 604800000000"]
    expiration_policy [of m0 "2000000 + 604800000001"]
    expiration_policy [of m0 0]
  by (simp add: m0_def timedelta_hours_def timedelta_seconds_def)

subsection \<open>Writing in place\<close>

lemma take_save_ops:
  "take n [a, b, c, d] =
     (if n = 0 then [] else if n = 1 then [a] else if n = 2 then [a, b]
      else if n = 3 then [a, b, c] else [a, b, c, d])"
  by (cases n; simp; rename_tac k; case_tac k; simp; rename_tac j; case_tac j; simp;
      rename_tac i; case_tac i; simp)

text \<open>
  Claim C7, as the code has it.  \<^verbatim>\<open>_save_session_metadata\<close> writes the
  metadata file in place: it opens the file for writing, which truncates it, and then
  writes the new text; there is no temporary file and no rename.  A save never fails.
  After its first step the file still holds what it held before, after the second step
  the file is empty, and from the third step on it holds the complete new text; a save
  that runs all four steps is the whole \<^verbatim>\<open>_save_session_metadata\<close> and leaves
  exactly the new text.
\<close>

theorem save_overwrites_in_place:
  "map_option (\<lambda>F'. stored_text L F' uid site) (interrupted_save L F uid site m n) =
     Some (if n \<le> 1 then stored_text L F uid site
           else if n = 2 then Some []
           else Some (metadata_file_text L m)) \<and>
   interrupted_save L F uid site m (4 + n) = save_session_metadata L F uid site m \<and>
   map_option (\<lambda>F'. stored_text L F' uid site) (save_session_metadata L F uid site m) =
     Some (Some (metadata_file_text L m))"
  by (cases "F (get_session_dir L uid site)")
     (auto simp: interrupted_save_def save_session_metadata_def save_ops_def take_save_ops
        get_metadata_file_def mkdir_def Let_def stored_text_def file_lookup_def)

theorem save_overwrites_in_place_witness:
  "map_option (\<lambda>F'. stored_text toy F' ''u1'' ''siteA'')
     (interrupted_save toy Map.empty ''u1'' ''siteA'' m0 1) = Some None \<and>
   map_option (\<lambda>F'. stored_text toy F' ''u1'' ''siteA'')
     (interrupted_save toy Map.empty ''u1'' ''siteA'' m0 2) = Some (Some []) \<and>
   map_option (\<lambda>F'. stored_text toy F' ''u1'' ''siteA'')
     (interrupted_save toy Map.empty ''u1'' ''siteA'' m0 3) = Some (Some (metadata_file_text toy m0))"
  using save_overwrites_in_place [of toy "''u1''" "''siteA''" Map.empty m0 1]
    save_overwrites_in_place [of toy "''u1''" "''siteA''" Map.empty m0 2]
    save_overwrites_in_place [of toy "''u1''" "''siteA''" Map.empty m0 3]
  by (simp add: stored_text_def file_lookup_empty)

lemma metadata_file_text_toy: "metadata_file_text toy m \<noteq> []"
  by (simp add: metadata_file_text_def toy_fields toy_dumps_def)

text \<open>
  A save of \<open>m0\<close> has completed, and a second save, of \<open>m0\<close> with a new
  \<open>last_used\<close>, stops after the file was opened: the file is empty, which is neither
  the previous text nor the new one.
\<close>

theorem interrupted_save_counterexample:
  "stored_text toy (the (save_session_metadata toy Map.empty ''u1'' ''siteA'' m0)) ''u1'' ''siteA''
     = Some (metadata_file_text toy m0) \<and>
   map_option (\<lambda>F'. stored_text toy F' ''u1'' ''siteA'')
     (interrupted_save toy (the (save_session_metadata toy Map.empty ''u1'' ''siteA'' m0))
        ''u1'' ''siteA'' (m0\<lparr>last_used := 3000000\<rparr>) 2) = Some (Some []) \<and>
   [] \<noteq> metadata_file_text toy m0 \<and>
   [] \<noteq> metadata_file_text toy (m0\<lparr>last_used := 3000000\<rparr>)"
  by (simp add: save_result stored_text_def file_lookup_def get_metadata_file_def
      interrupted_save_def save_ops_def mkdir_def Let_def metadata_file_text_toy [symmetric])

section \<open>Properties of the session lifecycle\<close>

lemma pending1_eq:
  "pending1 = \<lparr>fs = [''user_sessions/u1_9f86d081884c7d65_siteA'' \<mapsto> Map.empty],
     active_sessions = [''u1:siteA'' \<mapsto> 0], playwright = True, browser = True,
     open_contexts = {0}, next_context = 1\<rparr>"
  by (simp add: pending1_def create_session_def setup_playwright_def quiet_def fresh_def
      toy_dir Let_def mkdir_def create_try_def new_context_def session_key_def)

lemma confirm_toy:
  "confirm_login toy quiet pending1 ''u1'' ''siteA'' =
    (Inr (PDict [(''status'', PStr ''login_confirmed''),
                 (''message'', PStr ''Session saved successfully for u1''),
                 (''current_url'', PStr ''https://x/home''),
                 (''session_saved'', PBool True)]),
     \<lparr>fs = [''user_sessions/u1_9f86d081884c7d65_siteA'' \<mapsto>
             [''session_metadata.json'' \<mapsto>
               \<lparr>content = metadata_file_text toy
                  \<lparr>user_id = PStr ''u1'', site_name = PStr ''siteA'',
                   created_at = 3000000, last_used = 3000000, is_valid = PBool True,
                   session_data = PDict [(''login_url'', PStr ''https://x/home''),
                     (''confirmed_at'', PStr (toy_isoformat 3000000))]\<rparr>,
                mode = 384\<rparr>]],
      active_sessions = Map.empty, playwright = True, browser = True,
      open_contexts = {}, next_context = 1\<rparr>)"
  by (simp add: confirm_login_def pending1_eq session_key_def confirm_try_def quiet_def
      save_result toy_dir toy_fields Let_def)

lemma confirmed1_eq:
  "confirmed1 =
     \<lparr>fs = [''user_sessions/u1_9f86d081884c7d65_siteA'' \<mapsto>
             [''session_metadata.json'' \<mapsto>
               \<lparr>content = metadata_file_text toy
                  \<lparr>user_id = PStr ''u1'', site_name = PStr ''siteA'',
                   created_at = 3000000, last_used = 3000000, is_valid = PBool True,
                   session_data = PDict [(''login_url'', PStr ''https://x/home''),
                     (''confirmed_at'', PStr (toy_isoformat 3000000))]\<rparr>,
                mode = 384\<rparr>]],
      active_sessions = Map.empty, playwright = True, browser = True,
      open_contexts = {}, next_context = 1\<rparr>"
  by (simp add: confirmed1_def confirm_toy)

lemma confirm_try_success:
  "confirm_try L env st ctx uid site = (Inr r, st') \<Longrightarrow>
   active_sessions st' (session_key uid site) = None"
  by (auto simp: confirm_try_def Let_def split: option.splits if_splits)

text \<open>
  What \<^verbatim>\<open>confirm_login\<close> does in terms of the registry's own key, the
  string \<open>session_key uid site\<close>.  When \<^verbatim>\<open>active_sessions\<close> has no entry
  under that string, it raises the 404 error "No active session found" and changes
  nothing.  A \<^verbatim>\<open>confirm_login\<close> that succeeds removes the entry under that
  string, so a second \<^verbatim>\<open>confirm_login\<close> on the resulting state raises that
  same 404 error, whatever the collaborator does.
\<close>

theorem confirm_needs_pending:
  "(active_sessions st (session_key uid site) = None \<longrightarrow>
      confirm_login L env st uid site =
        (Inl (HTTPException 404 ''No active session found''), st)) \<and>
   (confirm_login L env st uid site = (Inr r, st') \<longrightarrow>
      active_sessions st' (session_key uid site) = None \<and>
      confirm_login L env' st' uid site =
        (Inl (HTTPException 404 ''No active session found''), st'))"
proof -
  have absent: "confirm_login L e s uid site = (Inl (HTTPException 404 ''No active session found''), s)"
    if "active_sessions s (session_key uid site) = None" for e s
    using that by (simp add: confirm_login_def)
  have gone: "active_sessions st' (session_key uid site) = None"
    if "confirm_login L env st uid site = (Inr r, st')"
    using that
    by (auto simp: confirm_login_def split: option.splits prod.splits sum.splits
        dest: confirm_try_success)
  show ?thesis using absent gone by blast
qed

lemma confirm_pending1:
  "confirm_login toy quiet pending1 ''u1'' ''siteA'' =
     (Inr (PDict [(''status'', PStr ''login_confirmed''),
                 (''message'', PStr ''Session saved successfully for u1''),
                 (''current_url'', PStr ''https://x/home''),
                 (''session_saved'', PBool True)]), confirmed1)"
  by (simp add: confirm_toy confirmed1_eq)

lemma pending1_active: "active_sessions pending1 (session_key ''u1'' ''siteA'') = Some 0"
  by (simp add: pending1_eq session_key_def)

lemma fresh_not_pending: "active_sessions fresh k = None"
  by (simp add: fresh_def)

theorem confirm_needs_pending_witness:
  "active_sessions fresh (session_key ''u1'' ''siteA'') = None \<and>
   confirm_login toy quiet fresh ''u1'' ''siteA'' =
     (Inl (HTTPException 404 ''No active session found''), fresh) \<and>
   active_sessions pending1 (session_key ''u1'' ''siteA'') = Some 0 \<and>
   confirm_login toy quiet pending1 ''u1'' ''siteA'' =
     (Inr (PDict [(''status'', PStr ''login_confirmed''),
                 (''message'', PStr ''Session saved successfully for u1''),
                 (''current_url'', PStr ''https://x/home''),
                 (''session_saved'', PBool True)]), confirmed1) \<and>
   confirm_login toy quiet confirmed1 ''u1'' ''siteA'' =
     (Inl (HTTPException 404 ''No active session found''), confirmed1)"
  using confirm_needs_pending [of fresh "''u1''" "''siteA''" toy quiet]
    confirm_needs_pending [of pending1 "''u1''" "''siteA''" toy quiet
      "PDict [(''status'', PStr ''login_confirmed''),
                 (''message'', PStr ''Session saved successfully for u1''),
                 (''current_url'', PStr ''https://x/home''),
                 (''session_saved'', PBool True)]" confirmed1 quiet]
  by (simp add: fresh_not_pending confirm_pending1 pending1_active)

lemma pending_ab_eq:
  "pending_ab = \<lparr>fs = [''user_sessions/a:b_9f86d081884c7d65_c'' \<mapsto> Map.empty],
     active_sessions = [''a:b:c'' \<mapsto> 0], playwright = True, browser = True,
     open_contexts = {0}, next_context = 1\<rparr>"
  by (simp add: pending_ab_def create_session_def setup_playwright_def quiet_def fresh_def
      get_session_dir_def toy_def SESSIONS_DIR_def Let_def mkdir_def create_try_def
      new_context_def session_key_def)

lemma dir_ab: "get_session_dir toy ''a'' ''b:c'' = ''user_sessions/a_9f86d081884c7d65_b:c''"
  by (simp add: get_session_dir_def toy_def SESSIONS_DIR_def)

lemma confirm_pending_ab:
  "confirm_login toy quiet pending_ab ''a'' ''b:c'' =
    (Inr (PDict [(''status'', PStr ''login_confirmed''),
                 (''message'', PStr ''Session saved successfully for a''),
                 (''current_url'', PStr ''https://x/home''),
                 (''session_saved'', PBool True)]),
     \<lparr>fs = [''user_sessions/a:b_9f86d081884c7d65_c'' \<mapsto> Map.empty,
             ''user_sessions/a_9f86d081884c7d65_b:c'' \<mapsto>
             [''session_metadata.json'' \<mapsto>
               \<lparr>content = metadata_file_text toy
                  \<lparr>user_id = PStr ''a'', site_name = PStr ''b:c'',
                   created_at = 3000000, last_used = 3000000, is_valid = PBool True,
                   session_data = PDict [(''login_url'', PStr ''https://x/home''),
                     (''confirmed_at'', PStr (toy_isoformat 3000000))]\<rparr>,
                mode = 384\<rparr>]],
      active_sessions = Map.empty, playwright = True, browser = True,
      open_contexts = {}, next_context = 1\<rparr>)"
  by (simp add: confirm_login_def pending_ab_eq session_key_def confirm_try_def quiet_def
      save_result dir_ab toy_fields Let_def)

text \<open>
  Claim C5 does not hold of the code.  The registry is keyed by the string
  \<^verbatim>\<open>f"{user_id}:{site_name}"\<close>, which two different pairs can share:
  \<open>(a:b, c)\<close> and \<open>(a, b:c)\<close> both give \<open>a:b:c\<close>.  After a
  \<^verbatim>\<open>create_session\<close> for \<open>(a:b, c)\<close> alone, the pair \<open>(a, b:c)\<close> was
  never created and has no session directory, yet \<^verbatim>\<open>confirm_login\<close> for it
  does not raise the 404 error: it succeeds, closes the context opened for the other
  pair, removes that pair's entry, and writes metadata for \<open>(a, b:c)\<close> that loads
  as a valid session.
\<close>

theorem confirm_key_collision:
  "(''a:b'', ''c'') \<noteq> (''a'', ''b:c'') \<and>
   session_key ''a:b'' ''c'' = session_key ''a'' ''b:c'' \<and>
   fst (create_session toy quiet fresh ''a:b'' ''c'' ''https://x/login'') =
     Inr (PDict
       [(''status'', PStr ''session_created''),
        (''message'', PStr ''Browser session created for a:b. Please complete login manually.''),
        (''session_dir'', PStr ''user_sessions/a:b_9f86d081884c7d65_c''),
        (''next_step'', PStr ''Call /confirm-login/a:b/c when login is complete'')]) \<and>
   dir_exists (fs pending_ab) (get_session_dir toy ''a'' ''b:c'') = False \<and>
   fst (confirm_login toy quiet pending_ab ''a'' ''b:c'') =
     Inr (PDict [(''status'', PStr ''login_confirmed''),
                 (''message'', PStr ''Session saved successfully for a''),
                 (''current_url'', PStr ''https://x/home''),
                 (''session_saved'', PBool True)]) \<and>
   active_sessions (snd (confirm_login toy quiet pending_ab ''a'' ''b:c''))
     (session_key ''a:b'' ''c'') = None \<and>
   open_contexts (snd (confirm_login toy quiet pending_ab ''a'' ''b:c'')) = {} \<and>
   load_session_metadata toy (fs (snd (confirm_login toy quiet pending_ab ''a'' ''b:c'')))
       ''a'' ''b:c'' =
     Some \<lparr>user_id = PStr ''a'', site_name = PStr ''b:c'',
           created_at = 3000000, last_used = 3000000, is_valid = PBool True,
           session_data = PDict [(''login_url'', PStr ''https://x/home''),
             (''confirmed_at'', PStr (toy_isoformat 3000000))]\<rparr>"
proof -
  have created: "fst (create_session toy quiet fresh ''a:b'' ''c'' ''https://x/login'') =
     Inr (PDict
       [(''status'', PStr ''session_created''),
        (''message'', PStr ''Browser session created for a:b. Please complete login manually.''),
        (''session_dir'', PStr ''user_sessions/a:b_9f86d081884c7d65_c''),
        (''next_step'', PStr ''Call /confirm-login/a:b/c when login is complete'')])"
    by (simp add: create_session_def setup_playwright_def quiet_def fresh_def
        get_session_dir_def toy_def SESSIONS_DIR_def Let_def mkdir_def create_try_def
        new_context_def)
  have absent: "dir_exists (fs pending_ab) (get_session_dir toy ''a'' ''b:c'') = False"
    by (simp add: dir_ab pending_ab_eq dir_exists_def)
  have loaded: "load_session_metadata toy
      (fs (snd (confirm_login toy quiet pending_ab ''a'' ''b:c''))) ''a'' ''b:c'' =
     Some \<lparr>user_id = PStr ''a'', site_name = PStr ''b:c'',
           created_at = 3000000, last_used = 3000000, is_valid = PBool True,
           session_data = PDict [(''login_url'', PStr ''https://x/home''),
             (''confirmed_at'', PStr (toy_isoformat 3000000))]\<rparr>"
    by (simp add: confirm_pending_ab,
        simp add: load_session_metadata_def file_lookup_def get_metadata_file_def dir_ab,
        simp add: load_try_text toy_ok)
  have confirmed:
    "fst (confirm_login toy quiet pending_ab ''a'' ''b:c'') =
       Inr (PDict [(''status'', PStr ''login_confirmed''),
                   (''message'', PStr ''Session saved successfully for a''),
                   (''current_url'', PStr ''https://x/home''),
                   (''session_saved'', PBool True)])"
    "active_sessions (snd (confirm_login toy quiet pending_ab ''a'' ''b:c''))
       (session_key ''a:b'' ''c'') = None"
    "open_contexts (snd (confirm_login toy quiet pending_ab ''a'' ''b:c'')) = {}"
    by (simp_all add: confirm_pending_ab)
  have same_key: "session_key ''a:b'' ''c'' = session_key ''a'' ''b:c''"
    by (simp add: session_key_def)
  from created absent loaded confirmed same_key show ?thesis
    by simp
qed

text \<open>
  Claim C9, as the code has it.  \<^verbatim>\<open>delete_session\<close> returns a boolean for
  every key: true exactly when the session directory existed, in which case the
  directory is removed, so that a second delete of the key returns false.  It leaves
  \<^verbatim>\<open>active_sessions\<close> and the open browser contexts as they were.
\<close>

theorem delete_keeps_pending:
  "fst (delete_session L st uid site) = dir_exists (fs st) (get_session_dir L uid site) \<and>
   \<not> dir_exists (fs (snd (delete_session L st uid site))) (get_session_dir L uid site) \<and>
   fst (delete_session L (snd (delete_session L st uid site)) uid site) = False \<and>
   active_sessions (snd (delete_session L st uid site)) = active_sessions st \<and>
   open_contexts (snd (delete_session L st uid site)) = open_contexts st"
  by (simp add: delete_session_def Let_def dir_exists_def rmtree_def)

theorem delete_keeps_pending_witness:
  "fst (delete_session toy pending1 ''u1'' ''siteA'') = True \<and>
   fst (delete_session toy (snd (delete_session toy pending1 ''u1'' ''siteA'')) ''u1'' ''siteA'')
     = False \<and>
   fst (delete_session toy fresh ''u1'' ''siteA'') = False"
  using delete_keeps_pending [of toy pending1 "''u1''" "''siteA''"]
    delete_keeps_pending [of toy fresh "''u1''" "''siteA''"]
  by (simp add: dir_exists_def pending1_eq toy_dir fresh_def)

text \<open>
  After a \<^verbatim>\<open>create_session\<close> the key is pending with context \<open>0\<close>; the
  delete returns true and the entry is still registered, its context still open.
\<close>

theorem delete_pending_counterexample:
  "active_sessions pending1 (session_key ''u1'' ''siteA'') = Some 0 \<and>
   fst (delete_session toy pending1 ''u1'' ''siteA'') = True \<and>
   active_sessions (snd (delete_session toy pending1 ''u1'' ''siteA''))
     (session_key ''u1'' ''siteA'') = Some 0 \<and>
   0 \<in> open_contexts (snd (delete_session toy pending1 ''u1'' ''siteA''))"
  by (simp add: delete_session_def Let_def dir_exists_def pending1_eq toy_dir session_key_def)

text \<open>
  Claim C4, as the code has it.  \<^verbatim>\<open>create_session\<close> does not look at
  \<^verbatim>\<open>active_sessions\<close> before it opens a context.  For a key that is already
  pending, a second \<^verbatim>\<open>create_session\<close> in which the collaborator opens the
  context and the page and navigates succeeds with status \<open>session_created\<close>, and
  binds the key to the newly opened context in place of the registered one, which is not
  closed.  \<^verbatim>\<open>active_sessions\<close> is a dictionary, so a key has at most one entry.
\<close>

theorem create_replaces_pending:
  assumes "active_sessions st (session_key uid site) = Some ctx"
    and "playwright st" and "browser st"
    and "new_context_r env = None" and "new_page_r env = None" and "goto_r env = None"
  shows "fst (create_session L env st uid site login_url) =
           Inr (PDict
             [(''status'', PStr ''session_created''),
              (''message'', PStr (''Browser session created for '' @ uid @
                 ''. Please complete login manually.'')),
              (''session_dir'', PStr (get_session_dir L uid site)),
              (''next_step'', PStr (''Call /confirm-login/'' @ uid @ ''/'' @ site @
                 '' when login is complete''))]) \<and>
         active_sessions (snd (create_session L env st uid site login_url)) =
           (active_sessions st)(session_key uid site \<mapsto> next_context st) \<and>
         open_contexts (snd (create_session L env st uid site login_url)) =
           insert (next_context st) (open_contexts st)"
  using assms
  by (simp add: create_session_def setup_playwright_def Let_def create_try_def new_context_def)

theorem create_replaces_pending_witness:
  "active_sessions pending1 (session_key ''u1'' ''siteA'') = Some 0 \<and>
   playwright pending1 \<and> browser pending1 \<and>
   new_context_r quiet = None \<and> new_page_r quiet = None \<and> goto_r quiet = None \<and>
   active_sessions (snd (create_session toy quiet pending1 ''u1'' ''siteA'' ''https://x/login''))
     (session_key ''u1'' ''siteA'') = Some 1 \<and>
   open_contexts (snd (create_session toy quiet pending1 ''u1'' ''siteA'' ''https://x/login''))
     = {0, 1}"
  using create_replaces_pending [of pending1 "''u1''" "''siteA''" 0 quiet toy "''https://x/login''"]
  by (auto simp: pending1_eq session_key_def quiet_def)

text \<open>
  Two calls of \<^verbatim>\<open>create_session\<close> for the same key with no confirm between
  them: the second returns the same success value as the first, the key now maps to
  context \<open>1\<close>, and context \<open>0\<close> is still open.
\<close>

theorem create_twice_counterexample:
  "fst (create_session toy quiet fresh ''u1'' ''siteA'' ''https://x/login'') =
     fst (create_session toy quiet pending1 ''u1'' ''siteA'' ''https://x/login'') \<and>
   fst (create_session toy quiet pending1 ''u1'' ''siteA'' ''https://x/login'') =
     Inr (PDict
       [(''status'', PStr ''session_created''),
        (''message'', PStr ''Browser session created for u1. Please complete login manually.''),
        (''session_dir'', PStr ''user_sessions/u1_9f86d081884c7d65_siteA''),
        (''next_step'', PStr ''Call /confirm-login/u1/siteA when login is complete'')]) \<and>
   active_sessions pending1 (session_key ''u1'' ''siteA'') = Some 0 \<and>
   active_sessions (snd (create_session toy quiet pending1 ''u1'' ''siteA'' ''https://x/login''))
     (session_key ''u1'' ''siteA'') = Some 1 \<and>
   0 \<in> open_contexts (snd (create_session toy quiet pending1 ''u1'' ''siteA'' ''https://x/login''))"
  by (simp add: pending1_eq create_session_def setup_playwright_def quiet_def fresh_def
      toy_dir Let_def mkdir_def create_try_def new_context_def session_key_def)

section \<open>Properties of the action dispatcher\<close>

lemma confirmed1_m1:
  "confirmed1 =
     \<lparr>fs = [''user_sessions/u1_9f86d081884c7d65_siteA'' \<mapsto>
             [''session_metadata.json'' \<mapsto>
               \<lparr>content = metadata_file_text toy m1, mode = 384\<rparr>]],
      active_sessions = Map.empty, playwright = True, browser = True,
      open_contexts = {}, next_context = 1\<rparr>"
  by (simp add: confirmed1_eq m1_def)

lemma load_confirmed1: "load_session_metadata toy (fs confirmed1) ''u1'' ''siteA'' = Some m1"
  by (simp add: confirmed1_m1 load_session_metadata_def file_lookup_def get_metadata_file_def
      toy_dir load_try_text toy_ok)

lemma load_Some_dir_exists:
  "load_session_metadata L F uid site = Some m \<Longrightarrow> dir_exists F (get_session_dir L uid site)"
  by (auto simp: load_session_metadata_def file_lookup_def get_metadata_file_def dir_exists_def
      split: option.splits)

lemma setup_playwright_fs: "setup_playwright env st = (r, st1) \<Longrightarrow> fs st1 = fs st"
  by (auto simp: setup_playwright_def split: if_splits option.splits)

lemma execute_try_Inr:
  assumes "execute_try L env st1 m uid site action_type action_data = (Inr r, m', st2)"
  shows "save_session_metadata L (fs st1) uid site (m\<lparr>last_used := now_used env\<rparr>) = Some (fs st2)"
    and "m' = m\<lparr>last_used := now_used env\<rparr>"
    and "browser st1" and "new_context_r env = None"
    and "open_contexts st2 = insert (next_context st1) (open_contexts st1) - {next_context st1}"
    and "active_sessions st2 = active_sessions st1"
  using assms
  by (auto simp: execute_try_def new_context_def Let_def
      split: option.splits sum.splits if_splits prod.splits)

text \<open>
  Claim C10.  When \<^verbatim>\<open>execute_action\<close> succeeds on a session whose metadata
  loaded as \<open>m\<close>, the metadata file holds afterwards the text of \<open>m\<close> with
  \<open>last_used\<close> set to the time read after the action, and loading it gives that
  value: \<open>user_id\<close>, \<open>site_name\<close>, \<open>created_at\<close>, \<open>is_valid\<close> and
  \<open>session_data\<close> are those of \<open>m\<close>.
\<close>

theorem execute_touches_last_used_only:
  assumes "library_ok L"
    and "load_session_metadata L (fs st) uid site = Some m"
    and "execute_action L env st uid site action_type action_data = (Inr r, st')"
  shows "load_session_metadata L (fs st') uid site = Some (m\<lparr>last_used := now_used env\<rparr>) \<and>
         stored_text L (fs st') uid site =
           Some (metadata_file_text L (m\<lparr>last_used := now_used env\<rparr>)) \<and>
         (\<exists>m'. load_session_metadata L (fs st') uid site = Some m' \<and>
            user_id m' = user_id m \<and> site_name m' = site_name m \<and>
            created_at m' = created_at m \<and> is_valid m' = is_valid m \<and>
            session_data m' = session_data m \<and> last_used m' = now_used env)"
proof -
  from assms(2,3) obtain st1 m' where
    started: "setup_playwright env st = (Inr (), st1)" and
    body: "execute_try L env st1 m uid site action_type action_data = (Inr r, m', st')"
    by (auto simp: execute_action_def split: if_splits prod.splits sum.splits option.splits)
  from started have "fs st1 = fs st" by (rule setup_playwright_fs)
  with execute_try_Inr(1) [OF body]
  have saved: "save_session_metadata L (fs st) uid site (m\<lparr>last_used := now_used env\<rparr>) =
      Some (fs st')" by simp
  from load_after_save [OF assms(1) saved]
  have loaded: "load_session_metadata L (fs st') uid site = Some (m\<lparr>last_used := now_used env\<rparr>)" .
  from file_lookup_saved [OF saved]
  have "stored_text L (fs st') uid site =
      Some (metadata_file_text L (m\<lparr>last_used := now_used env\<rparr>))"
    by (simp add: stored_text_def)
  with loaded show ?thesis by simp
qed

lemma m1_fresh: "\<not> is_session_expired m1 3000000"
  by (simp add: is_session_expired_def m1_def timedelta_hours_def SESSION_TIMEOUT_HOURS_def)

lemma quiet_fields:
  "start_r quiet = None" "launch_r quiet = None" "new_context_r quiet = None"
  "pages_nonempty quiet = True" "new_page_r quiet = None" "goto_r quiet = None"
  "wait_r quiet = None" "title_r quiet = Inr ''Feed''" "screenshot_r quiet = None"
  "close_r quiet = None" "page_url quiet = ''https://x/home''" "now_check quiet = 3000000"
  "now_used quiet = 3000000" "now_stamp quiet = 3000000"
  by (simp_all add: quiet_def)

lemma confirmed1_fields:
  "fs confirmed1 = [''user_sessions/u1_9f86d081884c7d65_siteA'' \<mapsto>
             [''session_metadata.json'' \<mapsto>
               \<lparr>content = metadata_file_text toy m1, mode = 384\<rparr>]]"
  "playwright confirmed1" "browser confirmed1" "open_contexts confirmed1 = {}"
  "next_context confirmed1 = 1" "active_sessions confirmed1 = Map.empty"
  by (simp_all add: confirmed1_m1)

lemma setup_confirmed1: "setup_playwright env confirmed1 = (Inr (), confirmed1)"
  by (simp add: setup_playwright_def confirmed1_fields)

lemma new_context_confirmed1:
  "new_context_r env = None \<Longrightarrow>
   new_context env confirmed1 = (Inr 1, confirmed1\<lparr>open_contexts := {1}, next_context := 2\<rparr>)"
  by (simp add: new_context_def confirmed1_fields)

lemma dir_confirmed1: "dir_exists (fs confirmed1) (get_session_dir toy ''u1'' ''siteA'')"
  by (simp add: dir_exists_def confirmed1_fields toy_dir)

lemma perform_get_profile:
  "perform_action toy quiet ''get_profile'' [] =
     Inr (PDict [(''page_title'', PStr ''Feed''),
                 (''current_url'', PStr ''https://x/home''),
                 (''screenshot_taken'', PBool False)])"
  by (simp add: perform_action_def quiet_fields)

lemma execute_try_get_profile:
  "execute_try toy quiet confirmed1 m1 ''u1'' ''siteA'' ''get_profile'' None =
     (Inr (PDict [(''status'', PStr ''action_completed''),
                  (''action_type'', PStr ''get_profile''),
                  (''result'', PDict [(''page_title'', PStr ''Feed''),
                                      (''current_url'', PStr ''https://x/home''),
                                      (''screenshot_taken'', PBool False)]),
                  (''timestamp'', PStr (toy_isoformat 3000000))]),
      m1\<lparr>last_used := 3000000\<rparr>,
      confirmed1\<lparr>open_contexts := {}, next_context := 2,
        fs := [''user_sessions/u1_9f86d081884c7d65_siteA'' \<mapsto>
             [''session_metadata.json'' \<mapsto>
               \<lparr>content = metadata_file_text toy (m1\<lparr>last_used := 3000000\<rparr>), mode = 384\<rparr>]]\<rparr>)"
  by (simp add: execute_try_def new_context_confirmed1 quiet_fields perform_get_profile
      save_result confirmed1_fields toy_dir toy_fields Let_def)

lemma execute_get_profile:
  "execute_action toy quiet confirmed1 ''u1'' ''siteA'' ''get_profile'' None =
     (Inr (PDict [(''status'', PStr ''action_completed''),
                  (''action_type'', PStr ''get_profile''),
                  (''result'', PDict [(''page_title'', PStr ''Feed''),
                                      (''current_url'', PStr ''https://x/home''),
                                      (''screenshot_taken'', PBool False)]),
                  (''timestamp'', PStr (toy_isoformat 3000000))]),
      confirmed1\<lparr>open_contexts := {}, next_context := 2,
        fs := [''user_sessions/u1_9f86d081884c7d65_siteA'' \<mapsto>
             [''session_metadata.json'' \<mapsto>
               \<lparr>content = metadata_file_text toy (m1\<lparr>last_used := 3000000\<rparr>), mode = 384\<rparr>]]\<rparr>)"
  by (simp add: execute_action_def load_confirmed1 m1_fresh quiet_fields dir_confirmed1
      setup_confirmed1 execute_try_get_profile)

theorem execute_touches_last_used_only_witness:
  "library_ok toy \<and>
   load_session_metadata toy (fs confirmed1) ''u1'' ''siteA'' = Some m1 \<and>
   fst (execute_action toy quiet confirmed1 ''u1'' ''siteA'' ''get_profile'' None) =
     Inr (PDict [(''status'', PStr ''action_completed''),
                  (''action_type'', PStr ''get_profile''),
                  (''result'', PDict [(''page_title'', PStr ''Feed''),
                                      (''current_url'', PStr ''https://x/home''),
                                      (''screenshot_taken'', PBool False)]),
                  (''timestamp'', PStr (toy_isoformat 3000000))]) \<and>
   load_session_metadata toy
     (fs (snd (execute_action toy quiet confirmed1 ''u1'' ''siteA'' ''get_profile'' None)))
     ''u1'' ''siteA'' = Some (m1\<lparr>last_used := 3000000\<rparr>)"
  using execute_touches_last_used_only [OF toy_ok load_confirmed1 execute_get_profile]
  by (simp add: toy_ok load_confirmed1 execute_get_profile quiet_fields)

lemma invalid_is_expired: "is_valid m = PBool False \<Longrightarrow> is_session_expired m now"
  by (simp add: is_session_expired_def)

lemma execute_on_invalid:
  assumes "load_session_metadata L (fs st) uid site = Some m" and "is_valid m = PBool False"
  shows "execute_action L env st uid site action_type action_data =
           (Inl (HTTPException 401 ''Session expired. Please re-login.''), st)"
  using assms by (simp add: execute_action_def invalid_is_expired)

lemma execute_invalidates:
  assumes "load_session_metadata L (fs st) uid site = Some m"
    and "\<not> is_session_expired m (now_check env)"
    and "setup_playwright env st = (Inr (), st1)"
    and "execute_try L env st1 m uid site action_type action_data = (Inl e, m', st2)"
    and "session_validity_issue e"
    and "save_session_metadata L (fs st2) uid site (m'\<lparr>is_valid := PBool False\<rparr>) = Some F'"
  shows "execute_action L env st uid site action_type action_data =
           (Inl (HTTPException 401 ''Session invalid. Please re-login.''), st2\<lparr>fs := F'\<rparr>)"
  using assms load_Some_dir_exists [OF assms(1)]
  by (simp add: execute_action_def)

text \<open>
  Claim C6.  Take a session whose metadata loads and is not expired, and let the
  \<^verbatim>\<open>try\<close> block of \<^verbatim>\<open>execute_action\<close> raise an exception whose
  text contains \<open>net::ERR_\<close> or \<open>Session expired\<close>.  Then the call raises the 401
  error "Session invalid", the metadata on disk afterwards is the metadata of the
  \<^verbatim>\<open>except\<close> clause with \<open>is_valid\<close> false, and every further
  \<^verbatim>\<open>execute_action\<close> on the key, in any environment and for any action, raises
  the 401 error "Session expired" and leaves the state as it is.
\<close>

theorem transport_failure_invalidates:
  assumes "library_ok L"
    and "load_session_metadata L (fs st) uid site = Some m"
    and "\<not> is_session_expired m (now_check env)"
    and "setup_playwright env st = (Inr (), st1)"
    and "execute_try L env st1 m uid site action_type action_data = (Inl e, m', st2)"
    and "session_validity_issue e"
  shows "fst (execute_action L env st uid site action_type action_data) =
           Inl (HTTPException 401 ''Session invalid. Please re-login.'') \<and>
         load_session_metadata L
             (fs (snd (execute_action L env st uid site action_type action_data))) uid site =
           Some (m'\<lparr>is_valid := PBool False\<rparr>) \<and>
         execute_action L env'
             (snd (execute_action L env st uid site action_type action_data))
             uid site action_type' action_data' =
           (Inl (HTTPException 401 ''Session expired. Please re-login.''),
            snd (execute_action L env st uid site action_type action_data))"
proof -
  obtain F' where
    saved: "save_session_metadata L (fs st2) uid site (m'\<lparr>is_valid := PBool False\<rparr>) = Some F'"
    by (simp add: save_result)
  have run: "execute_action L env st uid site action_type action_data =
      (Inl (HTTPException 401 ''Session invalid. Please re-login.''), st2\<lparr>fs := F'\<rparr>)"
    by (rule execute_invalidates [OF assms(2-6) saved])
  have loaded: "load_session_metadata L (fs (st2\<lparr>fs := F'\<rparr>)) uid site =
      Some (m'\<lparr>is_valid := PBool False\<rparr>)"
    using load_after_save [OF assms(1) saved] by simp
  have "execute_action L env' (st2\<lparr>fs := F'\<rparr>) uid site action_type' action_data' =
      (Inl (HTTPException 401 ''Session expired. Please re-login.''), st2\<lparr>fs := F'\<rparr>)"
    by (rule execute_on_invalid [OF loaded]) simp
  with run loaded show ?thesis by simp
qed

text \<open>
  In general: once the context of an \<^verbatim>\<open>execute_action\<close> is open, every
  exception of the \<^verbatim>\<open>try\<close> block leaves it open.
\<close>

lemma execute_try_failure_keeps_context:
  assumes "browser st1" and "new_context_r env = None"
    and "execute_try L env st1 m uid site action_type action_data = (Inl e, m', st2)"
  shows "next_context st1 \<in> open_contexts st2"
  using assms
  by (auto simp: execute_try_def new_context_def Let_def
      split: option.splits sum.splits if_splits)

lemma offline_fields:
  "start_r offline = None" "launch_r offline = None" "new_context_r offline = None"
  "new_page_r offline = None"
  "goto_r offline = Some ''net::ERR_INTERNET_DISCONNECTED at https://www.linkedin.com/feed/''"
  "now_check offline = 3000000"
  by (simp_all add: offline_def quiet_def)

lemma perform_offline:
  "perform_action toy offline ''get_profile'' [] =
     Inl (PlaywrightError ''net::ERR_INTERNET_DISCONNECTED at https://www.linkedin.com/feed/'')"
  by (simp add: perform_action_def offline_fields)

lemma execute_try_offline:
  "execute_try toy offline confirmed1 m1 ''u1'' ''siteA'' ''get_profile'' None =
     (Inl (PlaywrightError ''net::ERR_INTERNET_DISCONNECTED at https://www.linkedin.com/feed/''),
      m1, confirmed1\<lparr>open_contexts := {1}, next_context := 2\<rparr>)"
  by (simp add: execute_try_def new_context_confirmed1 offline_fields perform_offline)

lemma offline_signature:
  "session_validity_issue
     (PlaywrightError ''net::ERR_INTERNET_DISCONNECTED at https://www.linkedin.com/feed/'')"
  by (simp add: session_validity_issue_def)

theorem transport_failure_invalidates_witness:
  "library_ok toy \<and>
   load_session_metadata toy (fs confirmed1) ''u1'' ''siteA'' = Some m1 \<and>
   \<not> is_session_expired m1 (now_check offline) \<and>
   setup_playwright offline confirmed1 = (Inr (), confirmed1) \<and>
   execute_try toy offline confirmed1 m1 ''u1'' ''siteA'' ''get_profile'' None =
     (Inl (PlaywrightError ''net::ERR_INTERNET_DISCONNECTED at https://www.linkedin.com/feed/''),
      m1, confirmed1\<lparr>open_contexts := {1}, next_context := 2\<rparr>) \<and>
   session_validity_issue
     (PlaywrightError ''net::ERR_INTERNET_DISCONNECTED at https://www.linkedin.com/feed/'') \<and>
   fst (execute_action toy offline confirmed1 ''u1'' ''siteA'' ''get_profile'' None) =
     Inl (HTTPException 401 ''Session invalid. Please re-login.'') \<and>
   load_session_metadata toy
     (fs (snd (execute_action toy offline confirmed1 ''u1'' ''siteA'' ''get_profile'' None)))
     ''u1'' ''siteA'' = Some (m1\<lparr>is_valid := PBool False\<rparr>) \<and>
   fst (execute_action toy quiet
     (snd (execute_action toy offline confirmed1 ''u1'' ''siteA'' ''get_profile'' None))
     ''u1'' ''siteA'' ''get_profile'' None) =
     Inl (HTTPException 401 ''Session expired. Please re-login.'')"
proof -
  have fresh: "\<not> is_session_expired m1 (now_check offline)"
    by (simp add: offline_fields m1_fresh)
  from transport_failure_invalidates [OF toy_ok load_confirmed1 fresh setup_confirmed1
      execute_try_offline offline_signature, of quiet "''get_profile''" None]
  show ?thesis
    by (simp add: toy_ok load_confirmed1 fresh setup_confirmed1 execute_try_offline
        offline_signature)
qed

text \<open>
  Claim C8 does not hold of the code.  \<^verbatim>\<open>await context.close()\<close> is the last
  statement of the \<^verbatim>\<open>try\<close> block and the \<^verbatim>\<open>except\<close> clause never
  closes the context.  On the confirmed session \<open>confirmed1\<close>, which has no open
  context, an unknown action type ends in the 500 error with context \<open>1\<close> left open,
  and so does a navigation failure that ends in the 401 error; the successful call
  closes its context.
\<close>

theorem failed_action_leaves_context_open:
  "execute_action toy quiet confirmed1 ''u1'' ''siteA'' ''unknown'' None =
     (Inl (HTTPException 500 ''Action failed: Unknown action type: unknown''),
      confirmed1\<lparr>open_contexts := {1}, next_context := 2\<rparr>) \<and>
   open_contexts confirmed1 = {} \<and>
   1 \<in> open_contexts
         (snd (execute_action toy quiet confirmed1 ''u1'' ''siteA'' ''unknown'' None)) \<and>
   open_contexts
     (snd (execute_action toy quiet confirmed1 ''u1'' ''siteA'' ''get_profile'' None)) = {} \<and>
   open_contexts
     (snd (execute_action toy offline confirmed1 ''u1'' ''siteA'' ''get_profile'' None)) = {1}"
proof -
  have unknown: "execute_try toy quiet confirmed1 m1 ''u1'' ''siteA'' ''unknown'' None =
      (Inl (PyValueError ''Unknown action type: unknown''), m1,
       confirmed1\<lparr>open_contexts := {1}, next_context := 2\<rparr>)"
    by (simp add: execute_try_def new_context_confirmed1 quiet_fields perform_action_def)
  have no_issue: "\<not> session_validity_issue (PyValueError ''Unknown action type: unknown'')"
    by (simp add: session_validity_issue_def)
  have a: "execute_action toy quiet confirmed1 ''u1'' ''siteA'' ''unknown'' None =
     (Inl (HTTPException 500 ''Action failed: Unknown action type: unknown''),
      confirmed1\<lparr>open_contexts := {1}, next_context := 2\<rparr>)"
    by (simp add: execute_action_def load_confirmed1 m1_fresh quiet_fields dir_confirmed1
        setup_confirmed1 unknown no_issue)
  have b: "open_contexts
     (snd (execute_action toy offline confirmed1 ''u1'' ''siteA'' ''get_profile'' None)) = {1}"
    by (simp add: execute_action_def load_confirmed1 m1_fresh offline_fields dir_confirmed1
        setup_confirmed1 execute_try_offline offline_signature save_result)
  show ?thesis
    by (simp add: a b execute_get_profile confirmed1_fields)
qed

end
